theory Spec2Isabelle
  imports Complex_Main
begin

section \<open>The order aggregate store of main.py\<close>

text \<open>
  The handlers of main.py are embedded as functions on an explicit store. Every handler
  takes the store and returns the store it leaves behind together with its result or
  the exception it raises. Python's int is \<open>int\<close>, str is \<open>string\<close>; float values
  are only copied by the handlers, never computed with, and are \<open>real\<close> here.
  Field names carry a prefix where two classes of the source share a name
  (\<open>o_\<close> for Order, \<open>p_\<close> for OrderProduct, \<open>r_\<close> for OrderResponse).
\<close>

subsection \<open>Data model\<close>

text \<open>Rows of the two tables. A stored row always has its primary key.\<close>

record OrderProduct =
  p_id :: int
  p_order_id :: int
  p_product_id :: int
  p_quantity :: int
  p_unit_price :: real

record Order =
  o_id :: int
  o_order_number :: string
  o_date :: string
  o_final_price :: real

text \<open>The request schemas (no id).\<close>

record OrderProductSchema =
  product_id :: int
  quantity :: int
  unit_price :: real
  name :: "string option"

record OrderSchema =
  order_number :: string
  date :: string
  final_price :: real
  products :: "OrderProductSchema list"

text \<open>
  OrderResponse, and also the dictionaries that get_orders and create_order build,
  which have exactly its keys.
\<close>

record OrderResponse =
  r_id :: int
  r_order_number :: string
  r_date :: string
  r_final_price :: real
  r_products :: "OrderProduct list"

text \<open>
  The exceptions a handler can raise: HTTPException(404), and the two database errors
  of the ORM that the handlers let propagate: IntegrityError (a constraint of the
  tables is violated; here \<open>unique=True\<close> on order_number) and DataError (the engine
  refuses a value for its column).
\<close>

datatype error = NotFound | IntegrityError | DataError

text \<open>
  \<open>engine = create_engine(DATABASE_URL)\<close>: the database is named by the environment
  only, so which column values it refuses is a parameter of every handler that writes:
  one predicate for the client-supplied columns of an order row, one for those of a
  line-item row.
\<close>

record engine =
  accepts_order :: "string \<Rightarrow> string \<Rightarrow> real \<Rightarrow> bool"
  accepts_product :: "int \<Rightarrow> int \<Rightarrow> real \<Rightarrow> bool"

text \<open>
  The committed state: both tables in storage order, and the counters from which the
  primary keys are generated. A transaction that is rolled back restores both tables;
  the model leaves the counters as they were too. Only the numbering of later rows
  reads them. The counters are the AUTO_INCREMENT of MySQL, which hands out no key
  twice; an engine that takes the largest key present plus one can hand out the key of
  a deleted row again. Of a generated key the claims below state only that no row of
  the table has it when the new row is inserted.
\<close>

record db =
  orders :: "Order list"
  order_products :: "OrderProduct list"
  next_order_id :: int
  next_product_id :: int

definition empty_db :: db where
  "empty_db = \<lparr>orders = [], order_products = [], next_order_id = 1, next_product_id = 1\<rparr>"

subsection \<open>Queries\<close>

text \<open>\<open>select(OrderProduct).where(OrderProduct.order_id == order_id)\<close>, \<open>.all()\<close>\<close>

definition select_products :: "db \<Rightarrow> int \<Rightarrow> OrderProduct list" where
  "select_products s order_id = filter (\<lambda>p. p_order_id p = order_id) (order_products s)"

text \<open>
  \<open>select(Order).where(Order.id == order_id)\<close>, \<open>.first()\<close>, and
  \<open>session.get(Order, order_id)\<close>
\<close>

definition session_get :: "db \<Rightarrow> int \<Rightarrow> Order option" where
  "session_get s order_id = find (\<lambda>ord. o_id ord = order_id) (orders s)"

subsection \<open>Writes\<close>

text \<open>
  The rows that a commit inserts for the added line items, in the order they were
  added, with consecutive generated ids.
\<close>

fun new_products :: "int \<Rightarrow> int \<Rightarrow> OrderProductSchema list \<Rightarrow> OrderProduct list" where
  "new_products n order_id [] = []"
| "new_products n order_id (product # rest) =
     \<lparr>p_id = n, p_order_id = order_id, p_product_id = product_id product,
      p_quantity = quantity product, p_unit_price = unit_price product\<rparr>
     # new_products (n + 1) order_id rest"

definition product_accepted :: "engine \<Rightarrow> OrderProductSchema \<Rightarrow> bool" where
  "product_accepted e product =
     accepts_product e (product_id product) (quantity product) (unit_price product)"

definition order_accepted :: "engine \<Rightarrow> OrderSchema \<Rightarrow> bool" where
  "order_accepted e order = accepts_order e (order_number order) (date order) (final_price order)"

text \<open>
  \<open>session.commit()\<close> with line items pending: one transaction; a refused row rolls
  all of it back.
\<close>

definition commit_products ::
    "engine \<Rightarrow> db \<Rightarrow> int \<Rightarrow> OrderProductSchema list \<Rightarrow> db \<times> (error + OrderProduct list)" where
  "commit_products e s order_id ps =
     (if list_all (product_accepted e) ps
      then let db_products = new_products (next_product_id s) order_id ps in
        (s\<lparr>order_products := order_products s @ db_products,
           next_product_id := next_product_id s + int (length ps)\<rparr>, Inr db_products)
      else (s, Inl DataError))"

text \<open>
  \<open>session.add(db_order); session.commit(); session.refresh(db_order)\<close>: a transaction
  of its own, which inserts the order row and reads back its generated id.
\<close>

definition commit_order :: "engine \<Rightarrow> db \<Rightarrow> OrderSchema \<Rightarrow> db \<times> (error + Order)" where
  "commit_order e s order =
     (if \<not> order_accepted e order then (s, Inl DataError)
      else if order_number order \<in> set (map o_order_number (orders s))
      then (s, Inl IntegrityError)
      else let db_order = \<lparr>o_id = next_order_id s, o_order_number = order_number order,
                             o_date = date order, o_final_price = final_price order\<rparr> in
        (s\<lparr>orders := orders s @ [db_order], next_order_id := next_order_id s + 1\<rparr>,
         Inr db_order))"

subsection \<open>Handlers\<close>

definition to_response :: "Order \<Rightarrow> OrderProduct list \<Rightarrow> OrderResponse" where
  "to_response ord ps =
     \<lparr>r_id = o_id ord, r_order_number = o_order_number ord, r_date = o_date ord,
      r_final_price = o_final_price ord, r_products = ps\<rparr>"

text \<open>get_orders: the loop appends one dictionary per selected order.\<close>

fun get_orders_loop :: "db \<Rightarrow> Order list \<Rightarrow> OrderResponse list \<Rightarrow> OrderResponse list" where
  "get_orders_loop s [] result = result"
| "get_orders_loop s (ord # rest) result =
     get_orders_loop s rest (result @ [to_response ord (select_products s (o_id ord))])"

definition get_orders :: "db \<Rightarrow> db \<times> OrderResponse list" where
  "get_orders s = (s, get_orders_loop s (orders s) [])"

definition get_order :: "db \<Rightarrow> int \<Rightarrow> db \<times> (error + OrderResponse)" where
  "get_order s order_id =
     (case session_get s order_id of
        None \<Rightarrow> (s, Inl NotFound)
      | Some ord \<Rightarrow> (s, Inr (to_response ord (select_products s order_id))))"

text \<open>
  create_order: two commits. When the second raises, the session is closed with the
  first one already committed.
\<close>

definition create_order :: "engine \<Rightarrow> db \<Rightarrow> OrderSchema \<Rightarrow> db \<times> (error + OrderResponse)" where
  "create_order e s order =
     (case commit_order e s order of
        (s1, Inl err) \<Rightarrow> (s1, Inl err)
      | (s1, Inr db_order) \<Rightarrow>
          (case commit_products e s1 (o_id db_order) (products order) of
             (s2, Inl err) \<Rightarrow> (s2, Inl err)
           | (s2, Inr db_products) \<Rightarrow> (s2, Inr (to_response db_order db_products))))"

text \<open>
  \<open>@app.post("/orders", response_model=OrderSchema)\<close>: the framework passes what the
  handler returns through the response model, which keeps the fields OrderSchema and
  OrderProductSchema declare; \<open>name\<close>, which no row has, takes its default.
\<close>

definition OrderProductSchema_of :: "OrderProduct \<Rightarrow> OrderProductSchema" where
  "OrderProductSchema_of p =
     \<lparr>product_id = p_product_id p, quantity = p_quantity p, unit_price = p_unit_price p,
      name = None\<rparr>"

definition OrderSchema_of :: "OrderResponse \<Rightarrow> OrderSchema" where
  "OrderSchema_of r =
     \<lparr>order_number = r_order_number r, date = r_date r, final_price = r_final_price r,
      products = map OrderProductSchema_of (r_products r)\<rparr>"

definition post_orders :: "engine \<Rightarrow> db \<Rightarrow> OrderSchema \<Rightarrow> db \<times> (error + OrderSchema)" where
  "post_orders e s order =
     (case create_order e s order of
        (s', Inl err) \<Rightarrow> (s', Inl err)
      | (s', Inr r) \<Rightarrow> (s', Inr (OrderSchema_of r)))"

text \<open>
  update_order: one transaction. The UPDATE of the order row is flushed before the
  bulk DELETE, the INSERTs at the commit; any error rolls everything back.
\<close>

definition assign_order :: "Order \<Rightarrow> OrderSchema \<Rightarrow> Order" where
  "assign_order ord order_data =
     ord\<lparr>o_order_number := order_number order_data, o_final_price := final_price order_data,
         o_date := date order_data\<rparr>"

definition update_order ::
    "engine \<Rightarrow> db \<Rightarrow> int \<Rightarrow> OrderSchema \<Rightarrow> db \<times> (error + OrderResponse)" where
  "update_order e s order_id order_data =
     (case session_get s order_id of
        None \<Rightarrow> (s, Inl NotFound)
      | Some ord \<Rightarrow>
          if \<not> order_accepted e order_data then (s, Inl DataError)
          else if order_number order_data
                  \<in> set (map o_order_number (filter (\<lambda>x. o_id x \<noteq> order_id) (orders s)))
          then (s, Inl IntegrityError)
          else
            let s1 = s\<lparr>orders := map (\<lambda>x. if o_id x = order_id then assign_order x order_data
                                           else x) (orders s),
                       order_products := filter (\<lambda>p. p_order_id p \<noteq> order_id) (order_products s)\<rparr>
            in (case commit_products e s1 order_id (products order_data) of
                  (s2, Inl err) \<Rightarrow> (s, Inl err)
                | (s2, Inr db_products) \<Rightarrow>
                    (s2, Inr (to_response (assign_order ord order_data) db_products))))"

text \<open>
  delete_order: each selected line item and the order are deleted by primary key, in
  one commit.
\<close>

definition delete_order :: "db \<Rightarrow> int \<Rightarrow> db \<times> (error + string)" where
  "delete_order s order_id =
     (case session_get s order_id of
        None \<Rightarrow> (s, Inl NotFound)
      | Some ord \<Rightarrow>
          let ps = select_products s order_id in
          (s\<lparr>order_products := filter (\<lambda>p. p_id p \<notin> set (map p_id ps)) (order_products s),
             orders := filter (\<lambda>x. o_id x \<noteq> o_id ord) (orders s)\<rparr>,
           Inr ''Order deleted successfully''))"

subsection \<open>The invariant of the tables\<close>

text \<open>
  What the engine maintains of the table declarations: primary keys are unique and
  below their counter, order_number is unique, and every line item refers to a stored
  order (\<open>foreign_key="order.id"\<close>).
\<close>

definition wf_db :: "db \<Rightarrow> bool" where
  "wf_db s =
     (distinct (map o_id (orders s)) \<and>
      distinct (map o_order_number (orders s)) \<and>
      distinct (map p_id (order_products s)) \<and>
      list_all (\<lambda>x. o_id x < next_order_id s) (orders s) \<and>
      list_all (\<lambda>p. p_id p < next_product_id s) (order_products s) \<and>
      list_all (\<lambda>p. p_order_id p \<in> set (map o_id (orders s))) (order_products s))"

text \<open>
  An instance of the engine, for concrete inputs: MySQL in strict mode, where an int
  column is a signed 32-bit INT and a str column a VARCHAR(255).
\<close>

definition int_column :: "int \<Rightarrow> bool" where
  "int_column v = (- 2147483648 \<le> v \<and> v \<le> 2147483647)"

definition mysql_strict :: engine where
  "mysql_strict =
     \<lparr>accepts_order = (\<lambda>n d f. length n \<le> 255 \<and> length d \<le> 255),
      accepts_product = (\<lambda>pid q u. int_column pid \<and> int_column q)\<rparr>"

subsection \<open>Concrete stores and payloads\<close>

text \<open>
  The example payload of the specification, and the committed state and handler result
  that creating it in the empty store gives.
\<close>

definition order_a1 :: OrderSchema where
  "order_a1 =
     \<lparr>order_number = ''A1'', date = ''2024-01-01'', final_price = 19.98,
      products = [\<lparr>product_id = 1, quantity = 2, unit_price = 9.99, name = None\<rparr>]\<rparr>"

definition db_a1 :: db where
  "db_a1 =
     \<lparr>orders = [\<lparr>o_id = 1, o_order_number = ''A1'', o_date = ''2024-01-01'',
                 o_final_price = 19.98\<rparr>],
      order_products = [\<lparr>p_id = 1, p_order_id = 1, p_product_id = 1, p_quantity = 2,
                         p_unit_price = 9.99\<rparr>],
      next_order_id = 2, next_product_id = 2\<rparr>"

definition response_a1 :: OrderResponse where
  "response_a1 =
     \<lparr>r_id = 1, r_order_number = ''A1'', r_date = ''2024-01-01'', r_final_price = 19.98,
      r_products = [\<lparr>p_id = 1, p_order_id = 1, p_product_id = 1, p_quantity = 2,
                     p_unit_price = 9.99\<rparr>]\<rparr>"

text \<open>A store with a second order, B2, which has two line items.\<close>

definition db_a1_b2 :: db where
  "db_a1_b2 =
     \<lparr>orders = [\<lparr>o_id = 1, o_order_number = ''A1'', o_date = ''2024-01-01'',
                 o_final_price = 19.98\<rparr>,
                \<lparr>o_id = 2, o_order_number = ''B2'', o_date = ''2024-01-02'',
                 o_final_price = 7\<rparr>],
      order_products = [\<lparr>p_id = 1, p_order_id = 1, p_product_id = 1, p_quantity = 2,
                         p_unit_price = 9.99\<rparr>,
                        \<lparr>p_id = 2, p_order_id = 2, p_product_id = 5, p_quantity = 1,
                         p_unit_price = 3\<rparr>,
                        \<lparr>p_id = 3, p_order_id = 2, p_product_id = 6, p_quantity = 1,
                         p_unit_price = 4\<rparr>],
      next_order_id = 3, next_product_id = 4\<rparr>"

text \<open>A replacement for B2 with one line item, and what update_order makes of it.\<close>

definition order_b2_new :: OrderSchema where
  "order_b2_new =
     \<lparr>order_number = ''B2-rev'', date = ''2024-01-03'', final_price = 12,
      products = [\<lparr>product_id = 8, quantity = 3, unit_price = 4, name = None\<rparr>]\<rparr>"

definition db_b2_replaced :: db where
  "db_b2_replaced =
     \<lparr>orders = [\<lparr>o_id = 1, o_order_number = ''A1'', o_date = ''2024-01-01'',
                 o_final_price = 19.98\<rparr>,
                \<lparr>o_id = 2, o_order_number = ''B2-rev'', o_date = ''2024-01-03'',
                 o_final_price = 12\<rparr>],
      order_products = [\<lparr>p_id = 1, p_order_id = 1, p_product_id = 1, p_quantity = 2,
                         p_unit_price = 9.99\<rparr>,
                        \<lparr>p_id = 4, p_order_id = 2, p_product_id = 8, p_quantity = 3,
                         p_unit_price = 4\<rparr>],
      next_order_id = 3, next_product_id = 5\<rparr>"

definition response_b2_new :: OrderResponse where
  "response_b2_new =
     \<lparr>r_id = 2, r_order_number = ''B2-rev'', r_date = ''2024-01-03'', r_final_price = 12,
      r_products = [\<lparr>p_id = 4, p_order_id = 2, p_product_id = 8, p_quantity = 3,
                     p_unit_price = 4\<rparr>]\<rparr>"

text \<open>A third order with two line items, and what create_order makes of it.\<close>

definition order_c3 :: OrderSchema where
  "order_c3 =
     \<lparr>order_number = ''C3'', date = ''2024-01-05'', final_price = 25,
      products = [\<lparr>product_id = 9, quantity = 1, unit_price = 10, name = Some ''pen''\<rparr>,
                  \<lparr>product_id = 5, quantity = 5, unit_price = 3, name = None\<rparr>]\<rparr>"

definition response_c3 :: OrderResponse where
  "response_c3 =
     \<lparr>r_id = 3, r_order_number = ''C3'', r_date = ''2024-01-05'', r_final_price = 25,
      r_products = [\<lparr>p_id = 4, p_order_id = 3, p_product_id = 9, p_quantity = 1,
                     p_unit_price = 10\<rparr>,
                    \<lparr>p_id = 5, p_order_id = 3, p_product_id = 5, p_quantity = 5,
                     p_unit_price = 3\<rparr>]\<rparr>"

definition db_c3 :: db where
  "db_c3 =
     db_a1_b2\<lparr>orders := orders db_a1_b2 @ [\<lparr>o_id = 3, o_order_number = ''C3'',
                  o_date = ''2024-01-05'', o_final_price = 25\<rparr>],
               order_products := order_products db_a1_b2 @ r_products response_c3,
               next_order_id := 4, next_product_id := 6\<rparr>"

text \<open>A date of 256 characters, one more than a VARCHAR(255) holds.\<close>

definition long_date :: string where
  "long_date = replicate 256 (CHR ''9'')"

section \<open>Auxiliary facts\<close>

subsection \<open>Inserted rows and queries\<close>

lemma length_new_products: "length (new_products n order_id ps) = length ps"
  by (induction ps arbitrary: n) auto

lemma new_products_order_id: "p \<in> set (new_products n order_id ps) \<Longrightarrow> p_order_id p = order_id"
  by (induction ps arbitrary: n) auto

lemma new_products_id_bounds:
  "p \<in> set (new_products n order_id ps) \<Longrightarrow> n \<le> p_id p \<and> p_id p < n + int (length ps)"
  by (induction ps arbitrary: n) fastforce+

lemma distinct_new_products: "distinct (map p_id (new_products n order_id ps))"
proof (induction ps arbitrary: n)
  case Nil
  show ?case by simp
next
  case (Cons a ps)
  have "n \<notin> p_id ` set (new_products (n + 1) order_id ps)"
    using new_products_id_bounds [of _ "n + 1" order_id ps] by fastforce
  with Cons show ?case by simp
qed

lemma new_products_fields:
  "map (\<lambda>p. (p_product_id p, p_quantity p, p_unit_price p)) (new_products n order_id ps)
     = map (\<lambda>p. (product_id p, quantity p, unit_price p)) ps"
  by (induction ps arbitrary: n) auto

lemma new_products_schema:
  "map OrderProductSchema_of (new_products n order_id ps) = map (\<lambda>p. p\<lparr>name := None\<rparr>) ps"
  by (induction ps arbitrary: n) (auto simp: OrderProductSchema_of_def)

lemma get_orders_loop_map:
  "get_orders_loop s xs result
     = result @ map (\<lambda>ord. to_response ord (select_products s (o_id ord))) xs"
  by (induction xs arbitrary: result) auto

lemma session_get_None: "session_get s i = None \<longleftrightarrow> i \<notin> o_id ` set (orders s)"
  by (auto simp: session_get_def find_None_iff)

lemma session_get_SomeD: "session_get s i = Some ord \<Longrightarrow> ord \<in> set (orders s) \<and> o_id ord = i"
  by (auto simp: session_get_def find_Some_iff)

lemma find_distinct_key:
  "distinct (map f xs) \<Longrightarrow> x \<in> set xs \<Longrightarrow> find (\<lambda>y. f y = f x) xs = Some x"
  by (induction xs) (auto simp: rev_image_eqI)

lemma session_get_unique:
  "distinct (map o_id (orders s)) \<Longrightarrow> ord \<in> set (orders s) \<Longrightarrow> session_get s (o_id ord) = Some ord"
  unfolding session_get_def by (rule find_distinct_key)

lemma wf_empty_db: "wf_db empty_db"
  by (simp add: wf_db_def empty_db_def)

subsection \<open>The handlers keep the invariant\<close>

lemma commit_products_wf:
  assumes "wf_db s" and "order_id \<in> o_id ` set (orders s)"
  shows "wf_db (fst (commit_products e s order_id ps))"
proof (cases "list_all (product_accepted e) ps")
  case False
  with assms show ?thesis by (simp add: commit_products_def)
next
  case True
  let ?new = "new_products (next_product_id s) order_id ps"
  have old: "\<And>p. p \<in> set (order_products s) \<Longrightarrow> p_id p < next_product_id s"
    using assms(1) by (simp add: wf_db_def list_all_iff)
  have new: "\<And>p. p \<in> set ?new \<Longrightarrow>
      next_product_id s \<le> p_id p \<and> p_id p < next_product_id s + int (length ps)
      \<and> p_order_id p = order_id"
    using new_products_id_bounds new_products_order_id by blast
  have disj: "p_id ` set (order_products s) \<inter> p_id ` set ?new = {}"
    using old new by fastforce
  have "distinct (map p_id (order_products s @ ?new))"
    using assms(1) disj by (simp add: wf_db_def distinct_new_products)
  moreover have "list_all (\<lambda>p. p_id p < next_product_id s + int (length ps)) (order_products s @ ?new)"
    using old new by (fastforce simp: list_all_iff)
  moreover have "list_all (\<lambda>p. p_order_id p \<in> set (map o_id (orders s))) (order_products s @ ?new)"
    using assms new by (auto simp: wf_db_def list_all_iff)
  ultimately show ?thesis
    using True assms(1) by (simp add: commit_products_def wf_db_def Let_def)
qed

lemma commit_order_wf:
  assumes "wf_db s"
  shows "wf_db (fst (commit_order e s order))"
  using assms
  by (fastforce simp: commit_order_def wf_db_def Let_def list_all_iff)

lemma commit_order_Inr:
  "commit_order e s order = (s1, Inr db_order) \<Longrightarrow> o_id db_order \<in> o_id ` set (orders s1)"
  by (auto simp: commit_order_def Let_def split: if_splits)

lemma create_order_wf:
  assumes "wf_db s"
  shows "wf_db (fst (create_order e s order))"
proof (cases "commit_order e s order")
  case (Pair s1 res)
  have wf1: "wf_db s1" using commit_order_wf [OF assms, of e order] Pair by simp
  show ?thesis
  proof (cases res)
    case (Inl err)
    with Pair wf1 show ?thesis by (simp add: create_order_def)
  next
    case (Inr db_order)
    have "o_id db_order \<in> o_id ` set (orders s1)"
      using Pair Inr by (auto dest: commit_order_Inr)
    from commit_products_wf [OF wf1 this, of e "products order"]
    show ?thesis using Pair Inr
      by (auto simp: create_order_def split: prod.splits sum.splits)
  qed
qed

lemma delete_order_wf:
  assumes "wf_db s"
  shows "wf_db (fst (delete_order s order_id))"
proof (cases "session_get s order_id")
  case None
  with assms show ?thesis by (simp add: delete_order_def)
next
  case (Some ord)
  then have oid: "o_id ord = order_id" by (simp add: session_get_SomeD)
  let ?keep = "\<lambda>p. p_id p \<notin> set (map p_id (select_products s order_id))"
  let ?ps = "filter ?keep (order_products s)"
  let ?os = "filter (\<lambda>x. o_id x \<noteq> order_id) (orders s)"
  have kept: "\<And>p. p \<in> set ?ps \<Longrightarrow> p_order_id p \<noteq> order_id"
    by (auto simp: select_products_def)
  have fk: "\<And>p. p \<in> set ?ps \<Longrightarrow> p_order_id p \<in> o_id ` set (orders s)"
    using assms by (auto simp: wf_db_def list_all_iff)
  have "list_all (\<lambda>p. p_order_id p \<in> set (map o_id ?os)) ?ps"
    unfolding list_all_iff
  proof
    fix p assume p: "p \<in> set ?ps"
    from fk [OF p] obtain x where "x \<in> set (orders s)" "o_id x = p_order_id p" by auto
    with kept [OF p] show "p_order_id p \<in> set (map o_id ?os)" by force
  qed
  moreover have "distinct (map o_id ?os)" "distinct (map o_order_number ?os)"
      "distinct (map p_id ?ps)"
    using assms by (simp_all add: wf_db_def distinct_map_filter)
  moreover have "list_all (\<lambda>x. o_id x < next_order_id s) ?os"
      "list_all (\<lambda>p. p_id p < next_product_id s) ?ps"
    using assms by (simp_all add: wf_db_def list_all_iff)
  ultimately show ?thesis using Some oid
    by (simp add: delete_order_def wf_db_def Let_def)
qed

lemma map_o_id_updated:
  "map o_id (map (\<lambda>x. if o_id x = i then assign_order x d else x) xs) = map o_id xs"
  by (induction xs) (auto simp: assign_order_def)

lemma distinct_replace_key:
  assumes "distinct (map k xs)" and "distinct (map v xs)"
    and "\<forall>x\<in>set xs. k x \<noteq> i \<longrightarrow> v x \<noteq> n"
  shows "distinct (map (\<lambda>x. if k x = i then n else v x) xs)"
  using assms
proof (induction xs)
  case Nil
  show ?case by simp
next
  case (Cons a xs)
  have ih: "distinct (map (\<lambda>x. if k x = i then n else v x) xs)"
    using Cons by simp
  have others: "\<forall>x\<in>set xs. k x \<noteq> k a \<and> v x \<noteq> v a"
    using Cons.prems(1,2) by (auto simp: image_iff)
  have "\<forall>x\<in>set xs. (if k x = i then n else v x) \<noteq> (if k a = i then n else v a)"
    using others Cons.prems(3) by auto
  with ih show ?case by (auto simp: image_iff)
qed

lemma distinct_numbers_updated:
  assumes "distinct (map o_id xs)" and "distinct (map o_order_number xs)"
    and "order_number d \<notin> o_order_number ` {x \<in> set xs. o_id x \<noteq> i}"
  shows "distinct (map o_order_number (map (\<lambda>x. if o_id x = i then assign_order x d else x) xs))"
proof -
  have "\<forall>x\<in>set xs. o_id x \<noteq> i \<longrightarrow> o_order_number x \<noteq> order_number d"
    using assms(3) by (auto simp: image_iff)
  from distinct_replace_key [OF assms(1,2) this]
  have "distinct (map (\<lambda>x. if o_id x = i then order_number d else o_order_number x) xs)" .
  moreover have "map o_order_number (map (\<lambda>x. if o_id x = i then assign_order x d else x) xs)
      = map (\<lambda>x. if o_id x = i then order_number d else o_order_number x) xs"
    by (induction xs) (simp_all add: assign_order_def)
  ultimately show ?thesis by (simp only:)
qed

lemma update_order_cases:
  "update_order e s order_id d =
     (case session_get s order_id of
        None \<Rightarrow> (s, Inl NotFound)
      | Some ord \<Rightarrow>
          if \<not> order_accepted e d then (s, Inl DataError)
          else if order_number d \<in> o_order_number ` {x \<in> set (orders s). o_id x \<noteq> order_id}
          then (s, Inl IntegrityError)
          else if \<not> list_all (product_accepted e) (products d) then (s, Inl DataError)
          else
            (s\<lparr>orders := map (\<lambda>x. if o_id x = order_id then assign_order x d else x) (orders s),
               order_products := filter (\<lambda>p. p_order_id p \<noteq> order_id) (order_products s)
                  @ new_products (next_product_id s) order_id (products d),
               next_product_id := next_product_id s + int (length (products d))\<rparr>,
             Inr (to_response (assign_order ord d)
                   (new_products (next_product_id s) order_id (products d)))))"
  by (auto simp: update_order_def commit_products_def Let_def split: option.splits)

lemma update_order_wf:
  assumes "wf_db s"
  shows "wf_db (fst (update_order e s order_id d))"
proof (cases "\<exists>r. snd (update_order e s order_id d) = Inr r")
  case False
  then have "fst (update_order e s order_id d) = s"
    by (auto simp: update_order_cases split: option.splits if_splits)
  with assms show ?thesis by simp
next
  case True
  then obtain ord where ord: "session_get s order_id = Some ord"
    and ok: "order_accepted e d" "list_all (product_accepted e) (products d)"
    and fresh: "order_number d \<notin> o_order_number ` {x \<in> set (orders s). o_id x \<noteq> order_id}"
    by (auto simp: update_order_cases split: option.splits if_splits)
  let ?os = "map (\<lambda>x. if o_id x = order_id then assign_order x d else x) (orders s)"
  let ?s1 = "s\<lparr>orders := ?os,
      order_products := filter (\<lambda>p. p_order_id p \<noteq> order_id) (order_products s)\<rparr>"
  have ids: "map o_id ?os = map o_id (orders s)" by (rule map_o_id_updated)
  have "distinct (map o_order_number ?os)"
    using assms fresh by (intro distinct_numbers_updated) (auto simp: wf_db_def)
  moreover have "list_all (\<lambda>x. o_id x < next_order_id s) ?os"
    using assms by (auto simp: wf_db_def list_all_iff assign_order_def)
  moreover have "set (map o_id ?os) = set (map o_id (orders s))" using ids by simp
  ultimately have wf1: "wf_db ?s1"
    using assms ids unfolding wf_db_def
    by (simp add: distinct_map_filter list_all_iff del: set_map map_map)
  have "order_id \<in> o_id ` set (orders ?s1)"
    using ord ids session_get_SomeD [OF ord] 
    by (metis (no_types, lifting) db.select_convs(1) db.surjective db.update_convs(1,2) image_eqI list.set_map)
  from commit_products_wf [OF wf1 this, of e "products d"]
  show ?thesis using ord ok fresh
    by (simp add: update_order_cases commit_products_def Let_def)
qed

subsection \<open>What a successful create has done\<close>

lemma find_append_None: "find P xs = None \<Longrightarrow> find P (xs @ ys) = find P ys"
  by (induction xs) (auto split: if_splits)

lemma create_order_Inr:
  assumes "create_order e s order = (s', Inr r)"
  shows "order_accepted e order \<and> order_number order \<notin> o_order_number ` set (orders s) \<and>
     list_all (product_accepted e) (products order) \<and>
     r = \<lparr>r_id = next_order_id s, r_order_number = order_number order, r_date = date order,
          r_final_price = final_price order,
          r_products = new_products (next_product_id s) (next_order_id s) (products order)\<rparr> \<and>
     s' = \<lparr>orders = orders s @ [\<lparr>o_id = next_order_id s, o_order_number = order_number order,
                                o_date = date order, o_final_price = final_price order\<rparr>],
           order_products = order_products s @ r_products r,
           next_order_id = next_order_id s + 1,
           next_product_id = next_product_id s + int (length (products order))\<rparr>"
  using assms
  by (auto simp: create_order_def commit_order_def commit_products_def to_response_def Let_def
      split: if_splits)

text \<open>
  How create_order can fail: at the first commit, with the store as it was; or at the
  second, and then the order row of the first commit is stored without line items.
\<close>

lemma create_order_Inl:
  assumes "create_order e s order = (s', Inl err)"
  shows "s' = s \<and> err = DataError \<and> \<not> order_accepted e order \<or>
    s' = s \<and> err = IntegrityError \<and> order_number order \<in> o_order_number ` set (orders s) \<or>
    err = DataError \<and> \<not> list_all (product_accepted e) (products order) \<and>
      orders s' = orders s @ [\<lparr>o_id = next_order_id s, o_order_number = order_number order,
                                o_date = date order, o_final_price = final_price order\<rparr>] \<and>
      order_products s' = order_products s"
  using assms
  by (auto simp: create_order_def commit_order_def commit_products_def Let_def
      split: if_splits)

lemma commit_order_stores_number:
  "order_accepted e order \<Longrightarrow>
     order_number order \<in> set (map o_order_number (orders (fst (commit_order e s order))))"
  by (simp add: commit_order_def Let_def)

lemma commit_products_orders: "orders (fst (commit_products e s order_id ps)) = orders s"
  by (simp add: commit_products_def Let_def)

lemma create_order_orders:
  "orders (fst (create_order e s order)) = orders (fst (commit_order e s order))"
proof (cases "commit_order e s order")
  case (Pair s1 res)
  show ?thesis
  proof (cases res)
    case (Inl err)
    with Pair show ?thesis by (simp add: create_order_def)
  next
    case (Inr db_order)
    obtain s2 res2 where c: "commit_products e s1 (o_id db_order) (products order) = (s2, res2)"
      by (cases "commit_products e s1 (o_id db_order) (products order)")
    then have "orders s2 = orders s1"
      using commit_products_orders [of e s1 "o_id db_order" "products order"] by simp
    with Pair Inr c show ?thesis by (cases res2) (simp_all add: create_order_def)
  qed
qed

lemma create_order_stores_number:
  assumes "order_accepted e order"
  shows "order_number order \<in> set (map o_order_number (orders (fst (create_order e s order))))"
  unfolding create_order_orders using assms by (rule commit_order_stores_number)

lemma create_order_conflict:
  assumes "order_accepted e order"
    and "order_number order \<in> set (map o_order_number (orders s))"
  shows "create_order e s order = (s, Inl IntegrityError)"
  using assms by (simp add: create_order_def commit_order_def)

lemma find_map_keep:
  assumes "\<And>x. k (f x) = k x"
  shows "find (\<lambda>x. k x = i) (map f xs) = map_option f (find (\<lambda>x. k x = i) xs)"
  by (induction xs) (simp_all add: assms)

text \<open>When create_order succeeds, and what a fetch of the new order then returns.\<close>

lemma create_order_succeeds:
  assumes "order_accepted e order" and "list_all (product_accepted e) (products order)"
    and "order_number order \<notin> o_order_number ` set (orders s)"
  shows "\<exists>s' r. create_order e s order = (s', Inr r)"
  using assms
  by (simp add: create_order_def commit_order_def commit_products_def Let_def)

lemma create_order_round_trip:
  assumes "wf_db s" and "create_order e s order = (s', Inr r)"
  shows "get_order s' (r_id r) = (s', Inr r) \<and>
    r_order_number r = order_number order \<and> r_date r = date order \<and>
    r_final_price r = final_price order \<and>
    length (r_products r) = length (products order) \<and>
    map (\<lambda>p. (p_product_id p, p_quantity p, p_unit_price p)) (r_products r)
      = map (\<lambda>p. (product_id p, quantity p, unit_price p)) (products order) \<and>
    distinct (map p_id (r_products r)) \<and>
    set (map p_id (r_products r)) \<inter> set (map p_id (order_products s)) = {} \<and>
    r_id r \<notin> set (map o_id (orders s))"
proof -
  let ?n = "next_order_id s"
  let ?new = "new_products (next_product_id s) ?n (products order)"
  let ?row = "\<lparr>o_id = ?n, o_order_number = order_number order, o_date = date order,
      o_final_price = final_price order\<rparr>"
  from create_order_Inr [OF assms(2)]
  have r: "r = \<lparr>r_id = ?n, r_order_number = order_number order, r_date = date order,
          r_final_price = final_price order, r_products = ?new\<rparr>"
    and s': "orders s' = orders s @ [?row]" "order_products s' = order_products s @ ?new"
    by simp_all
  have old_ids: "\<And>x. x \<in> set (orders s) \<Longrightarrow> o_id x < ?n"
    and old_pids: "\<And>p. p \<in> set (order_products s) \<Longrightarrow> p_id p < next_product_id s"
    and fk: "\<And>p. p \<in> set (order_products s) \<Longrightarrow> p_order_id p \<in> o_id ` set (orders s)"
    using assms(1) by (auto simp: wf_db_def list_all_iff)
  have fresh: "?n \<notin> o_id ` set (orders s)" using old_ids by fastforce
  have "find (\<lambda>x. o_id x = ?n) (orders s) = None"
    using old_ids by (fastforce simp: find_None_iff)
  then have get: "session_get s' ?n = Some ?row"
    by (simp add: session_get_def s' find_append_None)
  have "\<And>p. p \<in> set (order_products s) \<Longrightarrow> p_order_id p \<noteq> ?n"
    using fk fresh by force
  then have "filter (\<lambda>p. p_order_id p = ?n) (order_products s) = []"
    by (simp add: filter_empty_conv)
  moreover have "filter (\<lambda>p. p_order_id p = ?n) ?new = ?new"
    by (simp add: filter_id_conv new_products_order_id)
  ultimately have sel: "select_products s' ?n = ?new"
    by (simp add: select_products_def s')
  have "get_order s' (r_id r) = (s', Inr r)"
    using get sel by (simp add: get_order_def r to_response_def)
  moreover have "set (map p_id ?new) \<inter> set (map p_id (order_products s)) = {}"
    using old_pids new_products_id_bounds [of _ "next_product_id s" ?n "products order"]
    by fastforce
  ultimately show ?thesis
    using fresh by (simp add: r length_new_products new_products_fields distinct_new_products)
qed

lemma create_order_distinct_numbers:
  assumes "distinct (map o_order_number (orders s))"
  shows "distinct (map o_order_number (orders (fst (create_order e s order))))"
  unfolding create_order_orders using assms
  by (auto simp: commit_order_def Let_def)

lemma update_order_ids:
  "map o_id (orders (fst (update_order e s order_id order_data))) = map o_id (orders s)"
  by (auto simp: update_order_cases assign_order_def split: option.splits)

lemma update_order_Inr_id:
  assumes "update_order e s order_id order_data = (s', Inr r)"
  shows "r_id r = order_id \<and> map o_id (orders s') = map o_id (orders s) \<and>
    (\<exists>ord. session_get s' order_id = Some ord \<and> o_id ord = order_id)"
proof -
  from assms obtain ord where ord: "session_get s order_id = Some ord"
    by (auto simp: update_order_cases split: option.splits)
  then have oid: "o_id ord = order_id" by (simp add: session_get_SomeD)
  from assms ord have r: "r_id r = o_id (assign_order ord order_data)"
    and s': "orders s' = map (\<lambda>x. if o_id x = order_id then assign_order x order_data else x)
        (orders s)"
    by (auto simp: update_order_cases to_response_def split: if_splits)
  have ids: "map o_id (orders s') = map o_id (orders s)"
    unfolding s' by (rule map_o_id_updated)
  have "order_id \<in> o_id ` set (orders s)" using ord session_get_None [of s order_id] by simp
  then have "order_id \<in> o_id ` set (orders s')"
    using ids by (metis list.set_map)
  then obtain ord' where "session_get s' order_id = Some ord'"
    using session_get_None [of s' order_id] by auto
  then have "session_get s' order_id = Some ord' \<and> o_id ord' = order_id"
    by (simp add: session_get_SomeD)
  then show ?thesis using r oid ids by (auto simp: assign_order_def)
qed

section \<open>The claims\<close>

subsection \<open>create_order\<close>

text \<open>
  C1. create_order is not one atomic unit: the order row is committed before the line
  items are added. On the empty store, with a line item whose quantity the INT column
  refuses, the handler raises at its second commit and the order row of the first
  commit stays, without line items.
\<close>

theorem create_order_second_commit_fails:
  "create_order mysql_strict empty_db
     \<lparr>order_number = ''A1'', date = ''2024-01-01'', final_price = 1,
      products = [\<lparr>product_id = 1, quantity = 2147483648, unit_price = 1, name = None\<rparr>]\<rparr>
   = (\<lparr>orders = [\<lparr>o_id = 1, o_order_number = ''A1'', o_date = ''2024-01-01'',
                   o_final_price = 1\<rparr>],
       order_products = [], next_order_id = 2, next_product_id = 1\<rparr>,
      Inl DataError)"
  by (simp add: create_order_def commit_order_def commit_products_def order_accepted_def
      product_accepted_def to_response_def Let_def mysql_strict_def int_column_def
      empty_db_def)

text \<open>
  C2. The dictionary that create_order returns carries the generated ids (order 1, line
  item 1), but the route's response model is OrderSchema: the response is the payload
  again, and the same whatever ids were generated.
\<close>

theorem post_orders_drops_ids:
  "snd (create_order mysql_strict empty_db order_a1) = Inr response_a1 \<and>
   r_id response_a1 = 1 \<and> map p_id (r_products response_a1) = [1] \<and>
   snd (post_orders mysql_strict empty_db order_a1) = Inr order_a1 \<and>
   snd (post_orders mysql_strict db_a1 (order_a1\<lparr>order_number := ''B2''\<rparr>))
     = Inr (order_a1\<lparr>order_number := ''B2''\<rparr>)"
  by (simp add: create_order_def commit_order_def commit_products_def order_accepted_def
      product_accepted_def to_response_def Let_def mysql_strict_def int_column_def
      post_orders_def OrderSchema_of_def OrderProductSchema_of_def empty_db_def order_a1_def
      db_a1_def response_a1_def)

text \<open>
  In general, the response of a successful POST is the payload with every \<open>name\<close>
  reset: nothing of the generated ids is in it.
\<close>

lemma post_orders_Inr:
  assumes "post_orders e s order = (s', Inr response)"
  shows "response = order\<lparr>products := map (\<lambda>p. p\<lparr>name := None\<rparr>) (products order)\<rparr>"
proof -
  from assms obtain r where r: "create_order e s order = (s', Inr r)"
    and resp: "response = OrderSchema_of r"
    by (auto simp: post_orders_def split: prod.splits sum.splits)
  from create_order_Inr [OF r] resp show ?thesis
    by (simp add: OrderSchema_of_def new_products_schema)
qed

text \<open>
  C4. Create, then get by the generated id. In a store that satisfies the table
  invariant, a payload whose rows the engine takes and whose order_number no stored
  order holds is created, and the fetch of the returned id gives back the aggregate
  that create_order returned: its scalar fields are the payload's, it has as many line
  items as the payload, with the payload's product_id, quantity and unit_price in the
  same order, each with this order's id as order_id and with an id of its own that no
  row of the table had; the order id is one that no stored order had.
\<close>

theorem create_then_get:
  assumes "wf_db s" and "order_accepted e order"
    and "list_all (product_accepted e) (products order)"
    and "order_number order \<notin> o_order_number ` set (orders s)"
  shows "\<exists>s' r. create_order e s order = (s', Inr r) \<and>
    get_order s' (r_id r) = (s', Inr r) \<and>
    r_order_number r = order_number order \<and> r_date r = date order \<and>
    r_final_price r = final_price order \<and>
    length (r_products r) = length (products order) \<and>
    map (\<lambda>p. (p_product_id p, p_quantity p, p_unit_price p)) (r_products r)
      = map (\<lambda>p. (product_id p, quantity p, unit_price p)) (products order) \<and>
    list_all (\<lambda>p. p_order_id p = r_id r) (r_products r) \<and>
    distinct (map p_id (r_products r)) \<and>
    set (map p_id (r_products r)) \<inter> set (map p_id (order_products s)) = {} \<and>
    r_id r \<notin> set (map o_id (orders s))"
proof -
  from create_order_succeeds [OF assms(2,3,4)]
  obtain s' r where c: "create_order e s order = (s', Inr r)" by blast
  from create_order_Inr [OF c]
  have "r_products r = new_products (next_product_id s) (r_id r) (products order)" by simp
  then have "list_all (\<lambda>p. p_order_id p = r_id r) (r_products r)"
    by (simp add: list_all_iff new_products_order_id)
  with c create_order_round_trip [OF assms(1) c] show ?thesis by blast
qed

theorem create_then_get_witness:
  "wf_db db_a1_b2 \<and> order_accepted mysql_strict order_c3 \<and>
   list_all (product_accepted mysql_strict) (products order_c3) \<and>
   order_number order_c3 \<notin> o_order_number ` set (orders db_a1_b2) \<and>
   create_order mysql_strict db_a1_b2 order_c3 = (db_c3, Inr response_c3) \<and>
   get_order db_c3 3 = (db_c3, Inr response_c3) \<and>
   map p_id (r_products response_c3) = [4, 5] \<and>
   map p_id (order_products db_a1_b2) = [1, 2, 3]"
  using create_then_get [of db_a1_b2 mysql_strict order_c3]
  by (simp add: create_order_def commit_order_def commit_products_def order_accepted_def
      product_accepted_def to_response_def Let_def mysql_strict_def int_column_def
      get_order_def session_get_def select_products_def wf_db_def
      db_a1_b2_def order_c3_def db_c3_def response_c3_def)

text \<open>
  C5, amended. Two create calls with the same order_number, one after the other, both
  with an order row that the engine takes, on a store in which order_number is unique:
  the second raises IntegrityError (the Conflict of the specification) and leaves both
  tables as the first call left them, and order_number is unique in the table after
  the first call.
\<close>

theorem create_order_duplicate_number:
  assumes "distinct (map o_order_number (orders s))"
    and "order_accepted e first" and "order_accepted e second"
    and "order_number second = order_number first"
  shows "snd (create_order e (fst (create_order e s first)) second) = Inl IntegrityError \<and>
    orders (fst (create_order e (fst (create_order e s first)) second))
      = orders (fst (create_order e s first)) \<and>
    order_products (fst (create_order e (fst (create_order e s first)) second))
      = order_products (fst (create_order e s first)) \<and>
    distinct (map o_order_number (orders (fst (create_order e s first))))"
proof -
  let ?s1 = "fst (create_order e s first)"
  have "order_number second \<in> set (map o_order_number (orders ?s1))"
    using create_order_stores_number [OF assms(2), of s] assms(4) by simp
  from create_order_conflict [OF assms(3) this]
  have "create_order e ?s1 second = (?s1, Inl IntegrityError)" .
  moreover have "distinct (map o_order_number (orders ?s1))"
    using assms(1) by (rule create_order_distinct_numbers)
  ultimately show ?thesis by simp
qed

text \<open>
  C5 as stated fails, in two ways. The first call creates A1; a second call with the
  same order_number and a date that the engine refuses raises DataError, not
  IntegrityError. And when it is the first call that the engine refuses, nothing is
  stored, and the second call with the same order_number succeeds.
\<close>

theorem create_order_duplicate_counterexample:
  "create_order mysql_strict empty_db order_a1 = (db_a1, Inr response_a1) \<and>
   order_number (order_a1\<lparr>date := long_date\<rparr>) = order_number order_a1 \<and>
   create_order mysql_strict db_a1 (order_a1\<lparr>date := long_date\<rparr>) = (db_a1, Inl DataError) \<and>
   create_order mysql_strict empty_db (order_a1\<lparr>date := long_date\<rparr>)
     = (empty_db, Inl DataError)"
  by (simp add: create_order_def commit_order_def commit_products_def order_accepted_def
      product_accepted_def to_response_def Let_def mysql_strict_def int_column_def
      empty_db_def order_a1_def db_a1_def response_a1_def long_date_def)

theorem create_order_duplicate_number_witness:
  "distinct (map o_order_number (orders db_a1_b2)) \<and>
   order_accepted mysql_strict order_c3 \<and>
   order_accepted mysql_strict (order_c3\<lparr>date := ''2024-02-02'', products := []\<rparr>) \<and>
   create_order mysql_strict db_a1_b2 order_c3 = (db_c3, Inr response_c3) \<and>
   create_order mysql_strict db_c3 (order_c3\<lparr>date := ''2024-02-02'', products := []\<rparr>)
     = (db_c3, Inl IntegrityError) \<and>
   map o_order_number (orders db_c3) = [''A1'', ''B2'', ''C3'']"
  using create_order_duplicate_number
    [of db_a1_b2 mysql_strict order_c3 "order_c3\<lparr>date := ''2024-02-02'', products := []\<rparr>"]
  by (simp add: create_order_def commit_order_def commit_products_def order_accepted_def
      product_accepted_def to_response_def Let_def mysql_strict_def int_column_def
      db_a1_b2_def order_c3_def db_c3_def response_c3_def)

subsection \<open>update_order\<close>

text \<open>
  C3, amended. update_order raises NotFound and leaves the store as it is when no
  order has the id. When an order has the id, no other order holds the new
  order_number, and the engine takes the new order values and every new line item, it
  succeeds: the returned aggregate has the id and the new scalar fields; its line
  items are as many as the payload's, with the payload's product_id, quantity and
  unit_price in the same order and with this order's id as order_id; in the table of
  orders the order has the new scalar fields and the other orders are as they were;
  the table of line items is the old one without the items of this order, followed by
  the returned ones; and get_order on the new store returns the same aggregate.
\<close>

theorem update_order_replaces:
  "(order_id \<notin> o_id ` set (orders s) \<longrightarrow>
       update_order e s order_id order_data = (s, Inl NotFound)) \<and>
   (order_id \<in> o_id ` set (orders s) \<and> order_accepted e order_data \<and>
    list_all (product_accepted e) (products order_data) \<and>
    order_number order_data
      \<notin> set (map o_order_number (filter (\<lambda>x. o_id x \<noteq> order_id) (orders s))) \<longrightarrow>
       (\<exists>s' r. update_order e s order_id order_data = (s', Inr r) \<and>
          r_id r = order_id \<and> r_order_number r = order_number order_data \<and>
          r_date r = date order_data \<and> r_final_price r = final_price order_data \<and>
          length (r_products r) = length (products order_data) \<and>
          map (\<lambda>p. (p_product_id p, p_quantity p, p_unit_price p)) (r_products r)
            = map (\<lambda>p. (product_id p, quantity p, unit_price p)) (products order_data) \<and>
          list_all (\<lambda>p. p_order_id p = order_id) (r_products r) \<and>
          orders s'
            = map (\<lambda>x. if o_id x = order_id
                       then x\<lparr>o_order_number := order_number order_data,
                              o_date := date order_data,
                              o_final_price := final_price order_data\<rparr>
                       else x) (orders s) \<and>
          order_products s'
            = filter (\<lambda>p. p_order_id p \<noteq> order_id) (order_products s) @ r_products r \<and>
          get_order s' order_id = (s', Inr r)))"
proof (intro conjI impI)
  assume "order_id \<notin> o_id ` set (orders s)"
  then have "session_get s order_id = None" by (simp add: session_get_None)
  then show "update_order e s order_id order_data = (s, Inl NotFound)"
    by (simp add: update_order_cases)
next
  assume a: "order_id \<in> o_id ` set (orders s) \<and> order_accepted e order_data \<and>
     list_all (product_accepted e) (products order_data) \<and>
     order_number order_data
      \<notin> set (map o_order_number (filter (\<lambda>x. o_id x \<noteq> order_id) (orders s)))"
  then have free: "order_number order_data \<notin> o_order_number ` {x \<in> set (orders s). o_id x \<noteq> order_id}"
    by auto
  from a obtain ord where ord: "session_get s order_id = Some ord"
    using session_get_None [of s order_id] by auto
  then have oid: "o_id ord = order_id" by (simp add: session_get_SomeD)
  let ?f = "\<lambda>x. if o_id x = order_id then assign_order x order_data else x"
  let ?new = "new_products (next_product_id s) order_id (products order_data)"
  let ?kept = "filter (\<lambda>p. p_order_id p \<noteq> order_id) (order_products s)"
  let ?s' = "s\<lparr>orders := map ?f (orders s), order_products := ?kept @ ?new,
      next_product_id := next_product_id s + int (length (products order_data))\<rparr>"
  let ?r = "to_response (assign_order ord order_data) ?new"
  have upd: "update_order e s order_id order_data = (?s', Inr ?r)"
    using a free ord by (simp add: update_order_cases)
  have "\<And>x. o_id (?f x) = o_id x" by (simp add: assign_order_def)
  then have "find (\<lambda>x. o_id x = order_id) (map ?f (orders s))
      = map_option ?f (find (\<lambda>x. o_id x = order_id) (orders s))"
    by (rule find_map_keep)
  then have get: "session_get ?s' order_id = Some (assign_order ord order_data)"
    using ord oid by (simp add: session_get_def)
  have "filter (\<lambda>p. p_order_id p = order_id) ?kept = []"
    by (simp add: filter_empty_conv)
  moreover have "filter (\<lambda>p. p_order_id p = order_id) ?new = ?new"
    by (simp add: filter_id_conv new_products_order_id)
  ultimately have sel: "select_products ?s' order_id = ?new"
    by (simp add: select_products_def)
  have fetch: "get_order ?s' order_id = (?s', Inr ?r)"
    using get sel by (simp add: get_order_def)
  have fields: "r_id ?r = order_id" "r_order_number ?r = order_number order_data"
      "r_date ?r = date order_data" "r_final_price ?r = final_price order_data"
      "r_products ?r = ?new"
    using oid by (simp_all add: to_response_def assign_order_def)
  have rows: "orders ?s'
      = map (\<lambda>x. if o_id x = order_id
                 then x\<lparr>o_order_number := order_number order_data,
                        o_date := date order_data,
                        o_final_price := final_price order_data\<rparr>
                 else x) (orders s)"
    by (simp add: assign_order_def)
  have items: "order_products ?s' = ?kept @ r_products ?r"
    by (simp add: fields)
  have mine: "list_all (\<lambda>p. p_order_id p = order_id) (r_products ?r)"
    by (simp add: fields list_all_iff new_products_order_id)
  have same: "length (r_products ?r) = length (products order_data)"
      "map (\<lambda>p. (p_product_id p, p_quantity p, p_unit_price p)) (r_products ?r)
        = map (\<lambda>p. (product_id p, quantity p, unit_price p)) (products order_data)"
    by (simp_all only: fields length_new_products new_products_fields)
  show "\<exists>s' r. update_order e s order_id order_data = (s', Inr r) \<and>
          r_id r = order_id \<and> r_order_number r = order_number order_data \<and>
          r_date r = date order_data \<and> r_final_price r = final_price order_data \<and>
          length (r_products r) = length (products order_data) \<and>
          map (\<lambda>p. (p_product_id p, p_quantity p, p_unit_price p)) (r_products r)
            = map (\<lambda>p. (product_id p, quantity p, unit_price p)) (products order_data) \<and>
          list_all (\<lambda>p. p_order_id p = order_id) (r_products r) \<and>
          orders s'
            = map (\<lambda>x. if o_id x = order_id
                       then x\<lparr>o_order_number := order_number order_data,
                              o_date := date order_data,
                              o_final_price := final_price order_data\<rparr>
                       else x) (orders s) \<and>
          order_products s'
            = filter (\<lambda>p. p_order_id p \<noteq> order_id) (order_products s) @ r_products r \<and>
          get_order s' order_id = (s', Inr r)"
    using upd fields(1-4) same mine rows items fetch by blast
qed

text \<open>
  C3 as stated fails. Order 2 exists, yet replacing it with a payload whose
  order_number order 1 holds raises IntegrityError, and replacing it with a payload
  that has a quantity the engine refuses raises DataError; both leave its scalar fields
  and its two line items as they were.
\<close>

theorem update_order_conflict_counterexample:
  "2 \<in> o_id ` set (orders db_a1_b2) \<and>
   update_order mysql_strict db_a1_b2 2 order_a1 = (db_a1_b2, Inl IntegrityError) \<and>
   update_order mysql_strict db_a1_b2 2
     (order_b2_new\<lparr>products := [\<lparr>product_id = 8, quantity = 2147483648, unit_price = 4,
                                   name = None\<rparr>]\<rparr>)
     = (db_a1_b2, Inl DataError)"
  by (simp add: update_order_def commit_products_def order_accepted_def product_accepted_def
      assign_order_def to_response_def session_get_def Let_def mysql_strict_def
      int_column_def db_a1_b2_def order_a1_def order_b2_new_def)

theorem update_order_replaces_witness:
  "2 \<in> o_id ` set (orders db_a1_b2) \<and> 7 \<notin> o_id ` set (orders db_a1_b2) \<and>
   order_accepted mysql_strict order_b2_new \<and>
   list_all (product_accepted mysql_strict) (products order_b2_new) \<and>
   order_number order_b2_new
     \<notin> set (map o_order_number (filter (\<lambda>x. o_id x \<noteq> 2) (orders db_a1_b2))) \<and>
   update_order mysql_strict db_a1_b2 2 order_b2_new = (db_b2_replaced, Inr response_b2_new) \<and>
   get_order db_b2_replaced 2 = (db_b2_replaced, Inr response_b2_new) \<and>
   update_order mysql_strict db_a1_b2 7 order_b2_new = (db_a1_b2, Inl NotFound)"
  using update_order_replaces [of 2 db_a1_b2 mysql_strict order_b2_new]
    update_order_replaces [of 7 db_a1_b2 mysql_strict order_b2_new]
  by (simp add: update_order_def commit_products_def order_accepted_def product_accepted_def
      assign_order_def to_response_def session_get_def Let_def mysql_strict_def
      int_column_def get_order_def select_products_def
      db_a1_b2_def order_b2_new_def db_b2_replaced_def response_b2_new_def)

text \<open>
  C9. update_order changes the id of no stored order, whether it succeeds or raises;
  when it succeeds, the returned aggregate has the id it was called with and the order
  is still found under that id.
\<close>

theorem update_order_keeps_id:
  "map o_id (orders (fst (update_order e s order_id order_data))) = map o_id (orders s) \<and>
   (\<forall>r. snd (update_order e s order_id order_data) = Inr r \<longrightarrow>
      r_id r = order_id \<and>
      (\<exists>ord. session_get (fst (update_order e s order_id order_data)) order_id = Some ord \<and>
             o_id ord = order_id))"
proof (intro conjI allI impI)
  show "map o_id (orders (fst (update_order e s order_id order_data))) = map o_id (orders s)"
    by (rule update_order_ids)
next
  fix r assume "snd (update_order e s order_id order_data) = Inr r"
  then have "update_order e s order_id order_data
      = (fst (update_order e s order_id order_data), Inr r)"
    by (metis prod.collapse)
  from update_order_Inr_id [OF this]
  show "r_id r = order_id" 
    and "\<exists>ord. session_get (fst (update_order e s order_id order_data)) order_id = Some ord \<and>
             o_id ord = order_id"
    by simp_all
qed

theorem update_order_keeps_id_witness:
  "update_order mysql_strict db_a1_b2 2 order_b2_new = (db_b2_replaced, Inr response_b2_new) \<and>
   r_id response_b2_new = 2 \<and> map o_id (orders db_b2_replaced) = [1, 2] \<and>
   map o_id (orders db_a1_b2) = [1, 2] \<and>
   snd (update_order mysql_strict db_a1_b2 2 order_a1) = Inl IntegrityError \<and>
   map o_id (orders (fst (update_order mysql_strict db_a1_b2 2 order_a1))) = [1, 2]"
  using update_order_keeps_id [of mysql_strict db_a1_b2 2 order_b2_new]
    update_order_keeps_id [of mysql_strict db_a1_b2 2 order_a1]
  by (simp add: update_order_def commit_products_def order_accepted_def product_accepted_def
      assign_order_def to_response_def session_get_def Let_def mysql_strict_def
      int_column_def db_a1_b2_def order_a1_def order_b2_new_def db_b2_replaced_def
      response_b2_new_def)

subsection \<open>get_order, get_orders and delete_order\<close>

text \<open>
  C6. get_order raises NotFound exactly when no stored order has the id; otherwise it
  returns the fields of the order with that id (there is one) and all line items whose
  order_id is that id.
\<close>

theorem get_order_spec:
  assumes "wf_db s"
  shows "(snd (get_order s order_id) = Inl NotFound \<longleftrightarrow> order_id \<notin> o_id ` set (orders s)) \<and>
    (\<forall>ord\<in>set (orders s). o_id ord = order_id \<longrightarrow>
       snd (get_order s order_id)
         = Inr \<lparr>r_id = order_id, r_order_number = o_order_number ord, r_date = o_date ord,
                r_final_price = o_final_price ord,
                r_products = filter (\<lambda>p. p_order_id p = order_id) (order_products s)\<rparr>)"
proof (intro conjI ballI impI)
  show "snd (get_order s order_id) = Inl NotFound \<longleftrightarrow> order_id \<notin> o_id ` set (orders s)"
    using session_get_None [of s order_id]
    by (auto simp: get_order_def split: option.splits)
next
  fix ord assume "ord \<in> set (orders s)" and "o_id ord = order_id"
  moreover have "distinct (map o_id (orders s))" using assms by (simp add: wf_db_def)
  ultimately have "session_get s order_id = Some ord"
    using session_get_unique by blast
  then show "snd (get_order s order_id)
      = Inr \<lparr>r_id = order_id, r_order_number = o_order_number ord, r_date = o_date ord,
             r_final_price = o_final_price ord,
             r_products = filter (\<lambda>p. p_order_id p = order_id) (order_products s)\<rparr>"
    using \<open>o_id ord = order_id\<close>
    by (simp add: get_order_def to_response_def select_products_def)
qed

theorem get_order_spec_witness:
  "wf_db db_a1_b2 \<and>
   snd (get_order db_a1_b2 2)
     = Inr \<lparr>r_id = 2, r_order_number = ''B2'', r_date = ''2024-01-02'', r_final_price = 7,
            r_products = [\<lparr>p_id = 2, p_order_id = 2, p_product_id = 5, p_quantity = 1,
                           p_unit_price = 3\<rparr>,
                          \<lparr>p_id = 3, p_order_id = 2, p_product_id = 6, p_quantity = 1,
                           p_unit_price = 4\<rparr>]\<rparr> \<and>
   snd (get_order db_a1_b2 7) = Inl NotFound"
  using get_order_spec [of db_a1_b2 2] get_order_spec [of db_a1_b2 7]
  by (simp add: get_order_def session_get_def select_products_def to_response_def wf_db_def
      db_a1_b2_def)

text \<open>
  C7. delete_order raises NotFound (store as it is) when no order has the id; otherwise
  it returns the confirmation message, and in the store it leaves no order has the id,
  get_order raises NotFound for it, and no line item has it as order_id.
\<close>

theorem delete_order_spec:
  "(order_id \<notin> o_id ` set (orders s) \<longrightarrow> delete_order s order_id = (s, Inl NotFound)) \<and>
   (order_id \<in> o_id ` set (orders s) \<longrightarrow>
      snd (delete_order s order_id) = Inr ''Order deleted successfully'' \<and>
      snd (get_order (fst (delete_order s order_id)) order_id) = Inl NotFound \<and>
      order_id \<notin> o_id ` set (orders (fst (delete_order s order_id))) \<and>
      order_id \<notin> p_order_id ` set (order_products (fst (delete_order s order_id))))"
proof (intro conjI impI)
  assume "order_id \<notin> o_id ` set (orders s)"
  then have "session_get s order_id = None" by (simp add: session_get_None)
  then show "delete_order s order_id = (s, Inl NotFound)" by (simp add: delete_order_def)
next
  assume "order_id \<in> o_id ` set (orders s)"
  then obtain ord where ord: "session_get s order_id = Some ord"
    using session_get_None [of s order_id] by auto
  then have oid: "o_id ord = order_id" by (simp add: session_get_SomeD)
  let ?s' = "fst (delete_order s order_id)"
  have os: "orders ?s' = filter (\<lambda>x. o_id x \<noteq> order_id) (orders s)"
    and ps: "order_products ?s'
      = filter (\<lambda>p. p_id p \<notin> set (map p_id (select_products s order_id))) (order_products s)"
    using ord oid by (simp_all add: delete_order_def Let_def)
  show "snd (delete_order s order_id) = Inr ''Order deleted successfully''"
    using ord by (simp add: delete_order_def Let_def)
  show gone: "order_id \<notin> o_id ` set (orders ?s')"
    unfolding os by auto
  then have "session_get ?s' order_id = None" by (simp add: session_get_None)
  then show "snd (get_order ?s' order_id) = Inl NotFound" by (simp add: get_order_def)
  show "order_id \<notin> p_order_id ` set (order_products ?s')"
    unfolding ps by (auto simp: select_products_def)
qed

theorem delete_order_spec_witness:
  "2 \<in> o_id ` set (orders db_a1_b2) \<and> 7 \<notin> o_id ` set (orders db_a1_b2) \<and>
   delete_order db_a1_b2 2
     = (db_a1\<lparr>next_order_id := 3, next_product_id := 4\<rparr>, Inr ''Order deleted successfully'') \<and>
   delete_order db_a1_b2 7 = (db_a1_b2, Inl NotFound)"
  using delete_order_spec [of 2 db_a1_b2] delete_order_spec [of 7 db_a1_b2]
  by (simp add: delete_order_def session_get_def select_products_def Let_def db_a1_b2_def
      db_a1_def)

text \<open>
  C8. get_orders returns one entry per stored order, in table order, each with the
  fields of its order and all line items whose order_id is that order's id; with no
  orders it returns the empty list.
\<close>

theorem get_orders_spec:
  "snd (get_orders s)
     = map (\<lambda>ord. \<lparr>r_id = o_id ord, r_order_number = o_order_number ord, r_date = o_date ord,
                   r_final_price = o_final_price ord,
                   r_products = filter (\<lambda>p. p_order_id p = o_id ord) (order_products s)\<rparr>)
         (orders s) \<and>
   (orders s = [] \<longrightarrow> snd (get_orders s) = [])"
  by (simp add: get_orders_def get_orders_loop_map to_response_def select_products_def)

theorem get_orders_spec_witness:
  "orders empty_db = [] \<and> snd (get_orders empty_db) = [] \<and>
   map r_id (snd (get_orders db_a1_b2)) = [1, 2] \<and>
   map (\<lambda>r. map p_id (r_products r)) (snd (get_orders db_a1_b2)) = [[1], [2, 3]]"
  using get_orders_spec [of empty_db] get_orders_spec [of db_a1_b2]
  by (simp add: get_orders_def select_products_def to_response_def empty_db_def db_a1_b2_def)

text \<open>
  C10. get_orders and get_order leave the store as it is, whether get_order finds the
  order or raises NotFound.
\<close>

theorem reads_leave_store:
  "fst (get_orders s) = s \<and> fst (get_order s order_id) = s"
  by (simp add: get_orders_def get_order_def split: option.splits)

end
